theory Spec2Isabelle
  imports Complex_Main "HOL-Library.AList"
begin

section \<open>Python values, dictionaries and exceptions\<close>

text \<open>
  The values that travel through \<^verbatim>\<open>sms/handlers.py\<close> are the values of JSON documents and
  of keyword arguments. A dictionary with string keys is an association list in insertion
  order, its keys distinct (\<open>wf_dict\<close>). The three ways the source reads one
  (\<^verbatim>\<open>d.get(k)\<close>, \<^verbatim>\<open>d.get(k, default)\<close> and \<^verbatim>\<open>d[k]\<close>) are three functions, the last
  one raising \<^verbatim>\<open>KeyError\<close>; \<^verbatim>\<open>d1.update(d2)\<close> stores the items of \<open>d2\<close> one by one.
\<close>

datatype pyval =
    PNone
  | PBool bool
  | PInt int
  | PStr string
  | PList "pyval list"
  | PDict "(string \<times> pyval) list"

type_synonym dict = "(string \<times> pyval) list"

definition wf_dict :: "dict \<Rightarrow> bool" where
  "wf_dict d = distinct (map fst d)"

datatype error =
    ValueError string
  | RuntimeError string
  | KeyError string
  | AttributeError string
  | TypeError
  | JSONDecodeError
  | OverflowError
  | OperationalError
  | InterfaceError
  | IntegrityError

definition dict_get :: "dict \<Rightarrow> string \<Rightarrow> pyval" where
  "dict_get d k = (case map_of d k of None \<Rightarrow> PNone | Some v \<Rightarrow> v)"

definition dict_get_default :: "dict \<Rightarrow> string \<Rightarrow> pyval \<Rightarrow> pyval" where
  "dict_get_default d k dflt = (case map_of d k of None \<Rightarrow> dflt | Some v \<Rightarrow> v)"

definition dict_item :: "dict \<Rightarrow> string \<Rightarrow> error + pyval" where
  "dict_item d k = (case map_of d k of None \<Rightarrow> Inl (KeyError k) | Some v \<Rightarrow> Inr v)"

definition dict_update :: "dict \<Rightarrow> dict \<Rightarrow> dict" where
  "dict_update d1 d2 = fold (\<lambda>(k, v). AList.update k v) d2 d1"

text \<open>Decimal rendering of an integer, as \<^verbatim>\<open>'{}'.format(n)\<close> gives it.\<close>

definition digit_char :: "nat \<Rightarrow> char" where
  "digit_char n = ''0123456789'' ! n"

function str_nat :: "nat \<Rightarrow> string" where
  "str_nat n = (if n < 10 then [digit_char n] else str_nat (n div 10) @ [digit_char (n mod 10)])"
  by pat_completeness auto
termination
  by (relation "measure id") auto

declare str_nat.simps [simp del]

definition str_int :: "int \<Rightarrow> string" where
  "str_int i = (if i < 0 then CHR ''-'' # str_nat (nat (- i)) else str_nat (nat i))"

text \<open>
  Python's rendering of a value, \<^verbatim>\<open>repr\<close>, which is what \<^verbatim>\<open>'{}'.format(d)\<close> gives for a
  dictionary \<open>d\<close>. A string is quoted with \<^verbatim>\<open>'\<close>, or with \<^verbatim>\<open>"\<close> when it contains \<^verbatim>\<open>'\<close>
  and no \<^verbatim>\<open>"\<close>; the backslash, the quote, tab, newline and carriage return are escaped
  with a backslash and the other control characters as \<^verbatim>\<open>\xNN\<close>. Characters are bytes
  here: the bytes of a character beyond ASCII are kept as they are, which is what Python
  does for a printable character.
\<close>

definition hex_digit :: "nat \<Rightarrow> char" where
  "hex_digit n = ''0123456789abcdef'' ! n"

definition repr_char :: "char \<Rightarrow> char \<Rightarrow> string" where
  "repr_char q c =
     (if c = CHR 0x5C then [CHR 0x5C, CHR 0x5C]
      else if c = q then [CHR 0x5C, q]
      else if c = CHR 0x09 then [CHR 0x5C, CHR ''t'']
      else if c = CHR 0x0A then [CHR 0x5C, CHR ''n'']
      else if c = CHR 0x0D then [CHR 0x5C, CHR ''r'']
      else if (of_char c :: nat) < 32 \<or> (of_char c :: nat) = 127
        then [CHR 0x5C, CHR ''x'', hex_digit (of_char c div 16), hex_digit (of_char c mod 16)]
      else [c])"

definition repr_str :: "string \<Rightarrow> string" where
  "repr_str s =
     (let q = (if CHR 0x27 \<in> set s \<and> CHR 0x22 \<notin> set s then CHR 0x22 else CHR 0x27)
      in q # concat (map (repr_char q) s) @ [q])"

fun join :: "string \<Rightarrow> string list \<Rightarrow> string" where
  "join sep [] = []"
| "join sep [x] = x"
| "join sep (x # y # ys) = x @ sep @ join sep (y # ys)"

fun py_repr :: "pyval \<Rightarrow> string" where
  "py_repr PNone = ''None''"
| "py_repr (PBool b) = (if b then ''True'' else ''False'')"
| "py_repr (PInt i) = str_int i"
| "py_repr (PStr s) = repr_str s"
| "py_repr (PList xs) = ''['' @ join '', '' (map py_repr xs) @ '']''"
| "py_repr (PDict kvs) =
     ''{'' @ join '', '' (map (\<lambda>kv. repr_str (fst kv) @ '': '' @ py_repr (snd kv)) kvs) @ ''}''"


section \<open>The outside world: gateway, logging facility, result stores\<close>

text \<open>
  The HTTP transport, the process-wide logging facility and the SQLite engine are
  collaborators of the program. Each call to one of them is recorded, in order, in the
  world; the gateway's answer to a request is a parameter of the model, and so is Python's
  rendering of a dictionary by \<^verbatim>\<open>str.format\<close>.
\<close>

datatype http_method = GET | POST

record request =
  http_method :: http_method
  url :: string
  payload :: dict

text \<open>
  A response carries its status code and what decoding its body yields
  (\<^verbatim>\<open>r.json()\<close>, \<^verbatim>\<open>json.loads(r.text)\<close>): \<open>None\<close> when the decoder raises, and a
  value that need not be a dictionary otherwise.
\<close>

record response =
  status_code :: int
  decoded :: "pyval option"

record env =
  gateway :: "request \<Rightarrow> response"
  py_str :: "dict \<Rightarrow> string"

text \<open>
  The parameters of an insert statement, in the order of the columns of
  \<^verbatim>\<open>SQLiteLoggingMixin.DDL\<close>: the number that the source writes for \<^verbatim>\<open>success\<close> and the
  Python values it reads from the result (\<^verbatim>\<open>NULL\<close> in the statement is \<^verbatim>\<open>None\<close>).
\<close>

record row =
  success :: int
  phone :: pyval
  error_code :: pyval
  error_msg :: pyval

text \<open>
  What \<^verbatim>\<open>sqlite3\<close> binds for a Python value: \<^verbatim>\<open>None\<close> is \<^verbatim>\<open>NULL\<close>, a string is text, a
  Boolean is the integer 1 or 0, an integer must fit in 64 bits (\<^verbatim>\<open>OverflowError\<close>
  otherwise), and a list or a dictionary cannot be bound.
\<close>

datatype bound = BNull | BInteger int | BText string

fun bind :: "pyval \<Rightarrow> error + bound" where
  "bind PNone = Inr BNull"
| "bind (PBool b) = Inr (BInteger (if b then 1 else 0))"
| "bind (PInt i) =
     (if - (2 ^ 63) \<le> i \<and> i < 2 ^ 63 then Inr (BInteger i) else Inl OverflowError)"
| "bind (PStr s) = Inr (BText s)"
| "bind (PList _) = Inl InterfaceError"
| "bind (PDict _) = Inl InterfaceError"

text \<open>
  What the table holds. A column converts the value it is given by its affinity:
  \<^verbatim>\<open>success real\<close> stores an integer as a real number; \<^verbatim>\<open>phone text\<close> and
  \<^verbatim>\<open>error_msg text\<close> store an integer as its decimal text; \<^verbatim>\<open>error_code integer\<close> stores a
  text as the number it denotes when it is a numeric literal. Of that last conversion the
  model computes the case of a decimal integer that fits in 64 bits, and keeps any other
  text under the constructor \<open>SqlNumericOfText\<close>: the value, a number or the text itself,
  that the engine makes of it.
\<close>

datatype sqlval =
    SqlNull
  | SqlInteger int
  | SqlReal real
  | SqlText string
  | SqlNumericOfText string

definition text_affinity :: "bound \<Rightarrow> sqlval" where
  "text_affinity v =
     (case v of BNull \<Rightarrow> SqlNull | BInteger i \<Rightarrow> SqlText (str_int i) | BText s \<Rightarrow> SqlText s)"

definition digits_value :: "string \<Rightarrow> int" where
  "digits_value ds = foldl (\<lambda>n c. 10 * n + (of_char c - 48)) 0 ds"

definition is_digits :: "string \<Rightarrow> bool" where
  "is_digits ds = (ds \<noteq> [] \<and> list_all (\<lambda>c. c \<in> set ''0123456789'') ds)"

definition numeric_of_text :: "string \<Rightarrow> sqlval" where
  "numeric_of_text s =
     (if is_digits s \<and> digits_value s < 2 ^ 63 then SqlInteger (digits_value s)
      else if s \<noteq> [] \<and> hd s = CHR ''-'' \<and> is_digits (tl s) \<and> digits_value (tl s) \<le> 2 ^ 63
        then SqlInteger (- digits_value (tl s))
      else SqlNumericOfText s)"

definition integer_affinity :: "bound \<Rightarrow> sqlval" where
  "integer_affinity v =
     (case v of BNull \<Rightarrow> SqlNull | BInteger i \<Rightarrow> SqlInteger i | BText s \<Rightarrow> numeric_of_text s)"

record stored_row =
  col_success :: sqlval
  col_phone :: sqlval
  col_error_code :: sqlval
  col_error_msg :: sqlval

text \<open>
  A store is a database file with the one connection that a handler has to it:
  \<open>committed\<close> is the table in the file, \<open>pending\<close> the rows of the open transaction of
  the connection.
\<close>

record store =
  table_exists :: bool
  in_transaction :: bool
  pending :: "stored_row list"
  committed :: "stored_row list"

datatype event = Request request | Connect string | GetLogger string

record world =
  events :: "event list"
  log_stream :: "(string \<times> string \<times> pyval list) list"
  stores :: "string \<rightharpoonup> store"

text \<open>The parameters are bound in their order; the first that cannot be bound raises.\<close>

definition bind_row :: "row \<Rightarrow> error + stored_row" where
  "bind_row r =
     (case bind (phone r) of
        Inl e \<Rightarrow> Inl e
      | Inr ph \<Rightarrow>
          (case bind (error_code r) of
             Inl e \<Rightarrow> Inl e
           | Inr code \<Rightarrow>
               (case bind (error_msg r) of
                  Inl e \<Rightarrow> Inl e
                | Inr msg \<Rightarrow>
                    Inr \<lparr>col_success = SqlReal (of_int (success r)),
                         col_phone = text_affinity ph,
                         col_error_code = integer_affinity code,
                         col_error_msg = text_affinity msg\<rparr>)))"

text \<open>
  \<^verbatim>\<open>cursor.execute("INSERT INTO Results VALUES ...")\<close>: the statement is prepared (the table
  must exist); \<^verbatim>\<open>sqlite3\<close> then opens a transaction if none is open, binds the parameters,
  and runs the statement, which checks the row against the constraints of the table
  (\<^verbatim>\<open>phone text NOT NULL\<close>, \<^verbatim>\<open>success IN (0, 1)\<close>). When binding or a constraint fails,
  no row is added and the transaction stays open.
\<close>

definition insert_row :: "row \<Rightarrow> store \<Rightarrow> (error + unit) \<times> store" where
  "insert_row r s =
     (if table_exists s then
        (let s1 = s\<lparr>in_transaction := True\<rparr>
         in case bind_row r of
              Inl e \<Rightarrow> (Inl e, s1)
            | Inr sr \<Rightarrow>
                if col_phone sr = SqlNull then (Inl IntegrityError, s1)
                else if success r = 0 \<or> success r = 1
                  then (Inr (), s1\<lparr>pending := pending s1 @ [sr]\<rparr>)
                else (Inl IntegrityError, s1))
      else (Inl OperationalError, s))"

definition commit_store :: "store \<Rightarrow> store" where
  "commit_store s =
     s\<lparr>committed := committed s @ pending s, pending := [], in_transaction := False\<rparr>"

definition execute_insert :: "string \<Rightarrow> row \<Rightarrow> world \<Rightarrow> (error + unit) \<times> world" where
  "execute_insert uri r w =
     (case stores w uri of
        None \<Rightarrow> (Inl OperationalError, w)
      | Some s \<Rightarrow>
          (case insert_row r s of
             (res, s1) \<Rightarrow> (res, w\<lparr>stores := (stores w)(uri \<mapsto> s1)\<rparr>)))"

definition commit :: "string \<Rightarrow> world \<Rightarrow> (error + unit) \<times> world" where
  "commit uri w =
     (case stores w uri of
        None \<Rightarrow> (Inl OperationalError, w)
      | Some s \<Rightarrow> (Inr (), w\<lparr>stores := (stores w)(uri \<mapsto> commit_store s)\<rparr>))"

text \<open>
  \<^verbatim>\<open>sqlite3.connect(db_uri, uri=True)\<close>: the attempt is an event; it fails when the
  location cannot be opened.
\<close>

definition connect :: "string \<Rightarrow> world \<Rightarrow> (error + string) \<times> world" where
  "connect uri w =
     (let w1 = w\<lparr>events := events w @ [Connect uri]\<rparr>
      in case stores w uri of
           None \<Rightarrow> (Inl OperationalError, w1)
         | Some _ \<Rightarrow> (Inr uri, w1))"

definition http :: "env \<Rightarrow> request \<Rightarrow> world \<Rightarrow> response \<times> world" where
  "http ev rq w = (gateway ev rq, w\<lparr>events := events w @ [Request rq]\<rparr>)"


section \<open>The handler object\<close>

text \<open>
  The class that \<^verbatim>\<open>get_handler\<close> builds has the bases (logger mixin, provider mixin,
  \<^verbatim>\<open>BaseSMSHandler\<close>). An instance carries the attributes that the constructors set; an
  attribute that has not been set yet is \<open>None\<close>, and reading it raises
  \<^verbatim>\<open>AttributeError\<close>. The attribute \<^verbatim>\<open>self.c\<close> is the field \<open>c_cursor\<close>.
\<close>

datatype provider = SMSCRU_SMSHandlerMixin | SMSTRAFFIC_SMSHandlerMixin

datatype logging = SimpleLoggingMixin | SQLiteLoggingMixin

record handler =
  class_name :: string
  logger_base :: logging
  handler_base :: provider
  login :: "pyval option"
  password :: "pyval option"
  sender :: "pyval option"
  token :: "pyval option"
  logger :: "string option"
  c_cursor :: "string option"

definition new_object :: "string \<Rightarrow> logging \<Rightarrow> provider \<Rightarrow> handler" where
  "new_object name l p =
     \<lparr>class_name = name, logger_base = l, handler_base = p,
      login = None, password = None, sender = None, token = None,
      logger = None, c_cursor = None\<rparr>"

type_synonym 'a action = "world \<Rightarrow> (error + 'a) \<times> world"

type_synonym init = "dict \<Rightarrow> handler \<Rightarrow> handler action"


section \<open>BaseSMSHandler\<close>

text \<open>
  \<^verbatim>\<open>__init__(self, login, password, sender=None)\<close>, called with keyword arguments only:
  a missing \<^verbatim>\<open>login\<close> or \<^verbatim>\<open>password\<close> and any other keyword are a \<^verbatim>\<open>TypeError\<close>.
\<close>

definition BaseSMSHandler_init :: init where
  "BaseSMSHandler_init kwargs self w =
     (if map_of kwargs ''login'' = None then (Inl TypeError, w)
      else if map_of kwargs ''password'' = None then (Inl TypeError, w)
      else if set (map fst kwargs) \<subseteq> {''login'', ''password'', ''sender''}
      then (Inr (self\<lparr>login := map_of kwargs ''login'', password := map_of kwargs ''password'',
                      sender := Some (dict_get kwargs ''sender'')\<rparr>), w)
      else (Inl TypeError, w))"


section \<open>SimpleLoggingMixin\<close>

definition SimpleLoggingMixin_init :: "init \<Rightarrow> init" where
  "SimpleLoggingMixin_init super_init kwargs self w =
     (case super_init kwargs self w of
        (Inl e, w1) \<Rightarrow> (Inl e, w1)
      | (Inr self1, w1) \<Rightarrow>
          (Inr (self1\<lparr>logger := Some ''sms''\<rparr>), w1\<lparr>events := events w1 @ [GetLogger ''sms'']\<rparr>))"

definition logger_info :: "string \<Rightarrow> string \<Rightarrow> pyval list \<Rightarrow> unit action" where
  "logger_info name fmt args w = (Inr (), w\<lparr>log_stream := log_stream w @ [(name, fmt, args)]\<rparr>)"

definition SimpleLoggingMixin_log :: "handler \<Rightarrow> pyval \<Rightarrow> unit action" where
  "SimpleLoggingMixin_log self result w =
     (case result of
        PDict d \<Rightarrow>
          (let status = dict_get d ''status'' in
           if status = PNone then (Inl (ValueError ''Could not find \"status\" field''), w)
           else if status = PStr ''ok'' then
             (case logger self of
                None \<Rightarrow> (Inl (AttributeError ''logger''), w)
              | Some lg \<Rightarrow>
                  (case dict_item d ''phone'' of
                     Inl e \<Rightarrow> (Inl e, w)
                   | Inr ph \<Rightarrow> logger_info lg ''status: OK, phone: %s'' [ph] w))
           else if status = PStr ''error'' then
             (case logger self of
                None \<Rightarrow> (Inl (AttributeError ''logger''), w)
              | Some lg \<Rightarrow>
                  (case dict_item d ''phone'' of
                     Inl e \<Rightarrow> (Inl e, w)
                   | Inr ph \<Rightarrow>
                       (case dict_item d ''error_msg'' of
                          Inl e \<Rightarrow> (Inl e, w)
                        | Inr msg \<Rightarrow>
                            logger_info lg ''status: ERROR, phone: %s, message: %s'' [ph, msg] w)))
           else (Inl (RuntimeError ''Unexpected value of status''), w))
      | _ \<Rightarrow> (Inl (AttributeError ''get''), w))"


section \<open>SQLiteLoggingMixin\<close>

text \<open>
  \<^verbatim>\<open>__init__(self, db_uri, **kwargs)\<close>: the keyword \<^verbatim>\<open>db_uri\<close> is required and is not
  passed on; the connection is opened after the next constructor has returned.
\<close>

definition SQLiteLoggingMixin_init :: "init \<Rightarrow> init" where
  "SQLiteLoggingMixin_init super_init kwargs self w =
     (case map_of kwargs ''db_uri'' of
        None \<Rightarrow> (Inl TypeError, w)
      | Some db_uri \<Rightarrow>
          (case super_init (AList.delete ''db_uri'' kwargs) self w of
             (Inl e, w1) \<Rightarrow> (Inl e, w1)
           | (Inr self1, w1) \<Rightarrow>
               (case db_uri of
                  PStr uri \<Rightarrow>
                    (case connect uri w1 of
                       (Inl e, w2) \<Rightarrow> (Inl e, w2)
                     | (Inr conn, w2) \<Rightarrow> (Inr (self1\<lparr>c_cursor := Some conn\<rparr>), w2))
                | _ \<Rightarrow> (Inl TypeError, w1))))"

definition insert_and_commit :: "string \<Rightarrow> row \<Rightarrow> unit action" where
  "insert_and_commit conn r w =
     (case execute_insert conn r w of
        (Inl e, w1) \<Rightarrow> (Inl e, w1)
      | (Inr _, w1) \<Rightarrow> commit conn w1)"

definition SQLiteLoggingMixin_log :: "handler \<Rightarrow> pyval \<Rightarrow> unit action" where
  "SQLiteLoggingMixin_log self response w =
     (case response of
        PDict d \<Rightarrow>
          (let status = dict_get d ''status'' in
           if status = PNone then (Inl (ValueError ''Could not find \"status\" field''), w)
           else if status = PStr ''ok'' then
             (case c_cursor self of
                None \<Rightarrow> (Inl (AttributeError ''c''), w)
              | Some conn \<Rightarrow>
                  (case dict_item d ''phone'' of
                     Inl e \<Rightarrow> (Inl e, w)
                   | Inr ph \<Rightarrow>
                       insert_and_commit conn
                         \<lparr>success = 1, phone = ph, error_code = PNone, error_msg = PNone\<rparr> w))
           else if status = PStr ''error'' then
             (case c_cursor self of
                None \<Rightarrow> (Inl (AttributeError ''c''), w)
              | Some conn \<Rightarrow>
                  (case dict_item d ''phone'' of
                     Inl e \<Rightarrow> (Inl e, w)
                   | Inr ph \<Rightarrow>
                       (case dict_item d ''error_code'' of
                          Inl e \<Rightarrow> (Inl e, w)
                        | Inr code \<Rightarrow>
                            (case dict_item d ''error_msg'' of
                               Inl e \<Rightarrow> (Inl e, w)
                             | Inr msg \<Rightarrow>
                                 insert_and_commit conn
                                   \<lparr>success = 0, phone = ph, error_code = code,
                                    error_msg = msg\<rparr> w))))
           else (Inl (ValueError ''Unexpected value of status''), w))
      | _ \<Rightarrow> (Inl (AttributeError ''get''), w))"


section \<open>SMSCRU_SMSHandlerMixin\<close>

text \<open>
  The provider mixins call \<^verbatim>\<open>self._log\<close>, which the class they are composed with
  supplies (the tests patch it with a mock): \<open>log_fn\<close> is a parameter of \<open>send\<close>.
\<close>

definition SMSCRU_request_url :: string where
  "SMSCRU_request_url = ''http://smsc.ru/someapi/message/''"

definition error_result :: "env \<Rightarrow> dict \<Rightarrow> dict" where
  "error_result ev user_data =
     [(''status'', PStr ''error''),
      (''phone'', dict_get_default user_data ''phone'' (PStr ''-'')),
      (''error_code'', PNone),
      (''error_msg'', PStr (''data: '' @ py_str ev user_data))]"

definition SMSCRU_send ::
    "env \<Rightarrow> (pyval \<Rightarrow> unit action) \<Rightarrow> handler \<Rightarrow> dict \<Rightarrow> unit action" where
  "SMSCRU_send ev log_fn self user_data w =
     (case login self of
        None \<Rightarrow> (Inl (AttributeError ''login''), w)
      | Some lgn \<Rightarrow>
          (case password self of
             None \<Rightarrow> (Inl (AttributeError ''password''), w)
           | Some psw \<Rightarrow>
               (let params = dict_update [(''login'', lgn), (''psw'', psw)] user_data;
                    (r, w1) = http ev \<lparr>http_method = GET, url = SMSCRU_request_url,
                                          payload = params\<rparr> w
                in if status_code r \<noteq> 200 then log_fn (PDict (error_result ev user_data)) w1
                   else (case decoded r of
                           None \<Rightarrow> (Inl JSONDecodeError, w1)
                         | Some response \<Rightarrow> log_fn response w1))))"


section \<open>SMSTRAFFIC_SMSHandlerMixin\<close>

definition SMSTRAFFIC_request_url :: string where
  "SMSTRAFFIC_request_url = ''http://smstraffic.ru/superapi/message/''"

definition SMSTRAFFIC_auth_url :: string where
  "SMSTRAFFIC_auth_url = ''http://smstraffic.ru/superapi/auth/''"

definition get_token :: "env \<Rightarrow> handler \<Rightarrow> pyval action" where
  "get_token ev self w =
     (case login self of
        None \<Rightarrow> (Inl (AttributeError ''login''), w)
      | Some lgn \<Rightarrow>
          (case password self of
             None \<Rightarrow> (Inl (AttributeError ''password''), w)
           | Some psw \<Rightarrow>
               (let data = [(''login'', lgn), (''pass'', psw)];
                    (r, w1) = http ev \<lparr>http_method = POST, url = SMSTRAFFIC_auth_url,
                                          payload = data\<rparr> w
                in if status_code r \<noteq> 200
                   then (Inl (RuntimeError (''Invalid response status code: ''
                                 @ str_int (status_code r) @ '' != 200'')), w1)
                   else (case decoded r of
                           None \<Rightarrow> (Inl JSONDecodeError, w1)
                         | Some (PDict d) \<Rightarrow>
                             (let tok = dict_get d ''token'' in
                              if tok = PNone
                              then (Inl (RuntimeError
                                      ''Response from server does not contain token''), w1)
                              else (Inr tok, w1))
                         | Some _ \<Rightarrow> (Inl (AttributeError ''get''), w1)))))"

definition SMSTRAFFIC_init :: "env \<Rightarrow> init \<Rightarrow> init" where
  "SMSTRAFFIC_init ev super_init kwargs self w =
     (case super_init kwargs self w of
        (Inl e, w1) \<Rightarrow> (Inl e, w1)
      | (Inr self1, w1) \<Rightarrow>
          (case get_token ev self1 w1 of
             (Inl e, w2) \<Rightarrow> (Inl e, w2)
           | (Inr tok, w2) \<Rightarrow> (Inr (self1\<lparr>token := Some tok\<rparr>), w2)))"

definition SMSTRAFFIC_send ::
    "env \<Rightarrow> (pyval \<Rightarrow> unit action) \<Rightarrow> handler \<Rightarrow> dict \<Rightarrow> unit action" where
  "SMSTRAFFIC_send ev log_fn self user_data w =
     (case token self of
        None \<Rightarrow> (Inl (AttributeError ''token''), w)
      | Some tok \<Rightarrow>
          (let data = dict_update [(''token'', tok)] user_data;
               (r, w1) = http ev \<lparr>http_method = POST, url = SMSTRAFFIC_request_url,
                                     payload = data\<rparr> w
           in if status_code r \<noteq> 200 then log_fn (PDict (error_result ev user_data)) w1
              else (case decoded r of
                      None \<Rightarrow> (Inl JSONDecodeError, w1)
                    | Some response \<Rightarrow> log_fn response w1)))"


section \<open>The composed class and get\_handler\<close>

text \<open>
  Method resolution in the class \<^verbatim>\<open>type(class_name, (logger, handler, BaseSMSHandler), {})\<close>:
  \<^verbatim>\<open>_log\<close> is the logger mixin's, \<^verbatim>\<open>send\<close> the provider mixin's, and \<^verbatim>\<open>__init__\<close>
  is the logger mixin's, whose \<^verbatim>\<open>super().__init__\<close> is the provider mixin's if it defines
  one (\<^verbatim>\<open>SMSTRAFFIC_SMSHandlerMixin\<close> does, and its \<^verbatim>\<open>super().__init__\<close> is
  \<^verbatim>\<open>BaseSMSHandler\<close>'s) and \<^verbatim>\<open>BaseSMSHandler\<close>'s otherwise.
\<close>

definition handler_log :: "handler \<Rightarrow> pyval \<Rightarrow> unit action" where
  "handler_log self =
     (case logger_base self of
        SimpleLoggingMixin \<Rightarrow> SimpleLoggingMixin_log self
      | SQLiteLoggingMixin \<Rightarrow> SQLiteLoggingMixin_log self)"

definition send :: "env \<Rightarrow> handler \<Rightarrow> dict \<Rightarrow> unit action" where
  "send ev self =
     (case handler_base self of
        SMSCRU_SMSHandlerMixin \<Rightarrow> SMSCRU_send ev (handler_log self) self
      | SMSTRAFFIC_SMSHandlerMixin \<Rightarrow> SMSTRAFFIC_send ev (handler_log self) self)"

definition provider_init :: "env \<Rightarrow> provider \<Rightarrow> init" where
  "provider_init ev p =
     (case p of
        SMSCRU_SMSHandlerMixin \<Rightarrow> BaseSMSHandler_init
      | SMSTRAFFIC_SMSHandlerMixin \<Rightarrow> SMSTRAFFIC_init ev BaseSMSHandler_init)"

definition logger_init :: "logging \<Rightarrow> init \<Rightarrow> init" where
  "logger_init l =
     (case l of
        SimpleLoggingMixin \<Rightarrow> SimpleLoggingMixin_init
      | SQLiteLoggingMixin \<Rightarrow> SQLiteLoggingMixin_init)"

definition construct ::
    "env \<Rightarrow> string \<Rightarrow> logging \<Rightarrow> provider \<Rightarrow> dict \<Rightarrow> handler action" where
  "construct ev name l p kwargs =
     logger_init l (provider_init ev p) kwargs (new_object name l p)"

definition provider_name :: "provider \<Rightarrow> string" where
  "provider_name p =
     (case p of
        SMSCRU_SMSHandlerMixin \<Rightarrow> ''SMSCRU_SMSHandlerMixin''
      | SMSTRAFFIC_SMSHandlerMixin \<Rightarrow> ''SMSTRAFFIC_SMSHandlerMixin'')"

definition handlers :: "(string \<times> provider \<times> dict) list" where
  "handlers =
     [(''smsr.ru'',
        (SMSCRU_SMSHandlerMixin, [(''login'', PStr ''login''), (''password'', PStr ''pass'')])),
      (''smstraffic.ru'',
        (SMSTRAFFIC_SMSHandlerMixin, [(''login'', PStr ''login''), (''password'', PStr ''pass'')]))]"

definition loggers :: "(string \<times> logging) list" where
  "loggers = [(''simple'', SimpleLoggingMixin), (''sqlite'', SQLiteLoggingMixin)]"

definition default_db_uri :: string where
  "default_db_uri = ''file:/tmp/testdb.sqlite?mode=rw''"

text \<open>
  \<^verbatim>\<open>get_handler(handler_name, logger_name='simple', handler_data=None)\<close>, with
  \<^verbatim>\<open>handler_data\<close> an optional dictionary.
\<close>

definition get_handler ::
    "env \<Rightarrow> string \<Rightarrow> string \<Rightarrow> dict option \<Rightarrow> handler action" where
  "get_handler ev handler_name logger_name handler_data w =
     (case map_of handlers handler_name of
        None \<Rightarrow> (Inl (ValueError ''Invalid handler_name or logger_name''), w)
      | Some (handler, auth_data) \<Rightarrow>
          (case map_of loggers logger_name of
             None \<Rightarrow> (Inl (ValueError ''Invalid handler_name or logger_name''), w)
           | Some lg \<Rightarrow>
               (let name = provider_name handler;
                    class_name = take (length name - length ''Mixin'') name;
                    initial_data = dict_update [] auth_data;
                    handler_data1 =
                      (case handler_data of
                         None \<Rightarrow>
                           (if logger_name = ''sqlite''
                            then [(''db_uri'', PStr default_db_uri)]
                            else [])
                       | Some d \<Rightarrow> d)
                in construct ev class_name lg handler (dict_update initial_data handler_data1) w)))"


section \<open>Test doubles\<close>

text \<open>
  The fixtures of \<^verbatim>\<open>tests/test_handlers.py\<close>: a gateway that answers every request with
  one fixed response (\<^verbatim>\<open>Mock(status_code=..., text=...)\<close>), the two results of the
  docstring of \<^verbatim>\<open>BaseSMSHandler._log\<close>, a world with no store, a world where the file
  behind the default location exists and holds the table, and one where the file has just
  been created and holds no table (as \<^verbatim>\<open>test_create_handler_with_db_logger\<close> leaves it).
\<close>

definition mock_env :: "int \<Rightarrow> pyval option \<Rightarrow> env" where
  "mock_env code body =
     \<lparr>gateway = (\<lambda>_. \<lparr>status_code = code, decoded = body\<rparr>),
      py_str = (\<lambda>d. py_repr (PDict d))\<rparr>"

definition ok_result :: dict where
  "ok_result = [(''status'', PStr ''ok''), (''phone'', PStr ''79149009900'')]"

definition failed_result :: dict where
  "failed_result =
     [(''status'', PStr ''error''), (''phone'', PStr ''79149009900''),
      (''error_code'', PInt 3500), (''error_msg'', PStr ''description'')]"

definition token_body :: "pyval option" where
  "token_body = Some (PDict [(''token'', PStr ''a'')])"

definition empty_world :: world where
  "empty_world = \<lparr>events = [], log_stream = [], stores = Map.empty\<rparr>"

definition empty_store :: store where
  "empty_store = \<lparr>table_exists = True, in_transaction = False, pending = [], committed = []\<rparr>"

definition new_file :: store where
  "new_file = \<lparr>table_exists = False, in_transaction = False, pending = [], committed = []\<rparr>"

definition new_file_world :: world where
  "new_file_world = \<lparr>events = [], log_stream = [], stores = [default_db_uri \<mapsto> new_file]\<rparr>"

definition db_world :: world where
  "db_world = \<lparr>events = [], log_stream = [], stores = [default_db_uri \<mapsto> empty_store]\<rparr>"

definition simple_handler :: "provider \<Rightarrow> handler" where
  "simple_handler p =
     \<lparr>class_name = take (length (provider_name p) - 5) (provider_name p),
      logger_base = SimpleLoggingMixin, handler_base = p,
      login = Some (PStr ''login''), password = Some (PStr ''pass''), sender = Some PNone,
      token = (case p of SMSCRU_SMSHandlerMixin \<Rightarrow> None
               | SMSTRAFFIC_SMSHandlerMixin \<Rightarrow> Some (PStr ''a'')),
      logger = Some ''sms'', c_cursor = None\<rparr>"

definition sqlite_handler :: "provider \<Rightarrow> handler" where
  "sqlite_handler p =
     (simple_handler p)\<lparr>logger_base := SQLiteLoggingMixin, logger := None,
                          c_cursor := Some default_db_uri\<rparr>"

text \<open>A gateway where only \<^verbatim>\<open>smsc.ru\<close> answers; every other request gets status 503.\<close>

definition smsc_only :: env where
  "smsc_only =
     \<lparr>gateway = (\<lambda>rq. if url rq = SMSCRU_request_url
                       then \<lparr>status_code = 200, decoded = Some (PDict ok_result)\<rparr>
                       else \<lparr>status_code = 503, decoded = None\<rparr>),
      py_str = (\<lambda>d. py_repr (PDict d))\<rparr>"


section \<open>The requests of the providers\<close>

text \<open>
  Names for the requests that the \<^verbatim>\<open>send\<close> methods and \<^verbatim>\<open>_get_token\<close> build, for the
  statements below; \<open>SMSCRU_send_request\<close>, \<open>SMSTRAFFIC_send_request\<close> and
  \<open>get_token_request\<close> show that they are the requests of the model.
\<close>

definition SMSCRU_request :: "pyval \<Rightarrow> pyval \<Rightarrow> dict \<Rightarrow> request" where
  "SMSCRU_request lgn psw user_data =
     \<lparr>http_method = GET, url = SMSCRU_request_url,
      payload = dict_update [(''login'', lgn), (''psw'', psw)] user_data\<rparr>"

definition SMSTRAFFIC_request :: "pyval \<Rightarrow> dict \<Rightarrow> request" where
  "SMSTRAFFIC_request tok user_data =
     \<lparr>http_method = POST, url = SMSTRAFFIC_request_url,
      payload = dict_update [(''token'', tok)] user_data\<rparr>"

definition auth_request :: "pyval \<Rightarrow> pyval \<Rightarrow> request" where
  "auth_request lgn psw =
     \<lparr>http_method = POST, url = SMSTRAFFIC_auth_url,
      payload = [(''login'', lgn), (''pass'', psw)]\<rparr>"


section \<open>Dictionary lemmas\<close>

lemma map_of_dict_update:
  "map_of (dict_update d1 d2) = map_of d1 ++ map_of (rev d2)"
  unfolding dict_update_def
  by (induction d2 arbitrary: d1) (auto simp: update_conv')

lemma map_of_rev_wf:
  assumes "wf_dict d"
  shows "map_of (rev d) = map_of d"
proof -
  have "distinct (map fst (rev d))"
    using assms by (simp add: wf_dict_def rev_map [symmetric])
  moreover have "distinct (map fst d)"
    using assms by (simp add: wf_dict_def)
  ultimately show ?thesis
    by (simp add: map_of_inject_set)
qed

lemma lookup_dict_update:
  assumes "wf_dict d2"
  shows "map_of (dict_update d1 d2) k = (case map_of d2 k of None \<Rightarrow> map_of d1 k | Some v \<Rightarrow> Some v)"
  using assms by (simp add: map_of_dict_update map_of_rev_wf map_add_def)

lemma map_of_rev_eq_None:
  "map_of (rev d) k = None \<longleftrightarrow> map_of d k = None"
  by (simp add: map_of_eq_None_iff)


section \<open>Loggers\<close>

lemma log_without_status:
  assumes "map_of d ''status'' = None \<or> map_of d ''status'' = Some PNone"
  shows "SimpleLoggingMixin_log self (PDict d) w = (Inl (ValueError ''Could not find \"status\" field''), w)"
    and "SQLiteLoggingMixin_log self (PDict d) w = (Inl (ValueError ''Could not find \"status\" field''), w)"
  using assms by (auto simp: SimpleLoggingMixin_log_def SQLiteLoggingMixin_log_def dict_get_def)

text \<open>
  C2. A result whose \<^verbatim>\<open>status\<close> is neither \<^verbatim>\<open>'ok'\<close> nor \<^verbatim>\<open>'error'\<close>: the two logger
  mixins raise exceptions of different classes, \<^verbatim>\<open>RuntimeError\<close> in
  \<^verbatim>\<open>SimpleLoggingMixin._log\<close> and \<^verbatim>\<open>ValueError\<close> in \<^verbatim>\<open>SQLiteLoggingMixin._log\<close>.
\<close>

theorem unexpected_status_exception_classes:
  "SimpleLoggingMixin_log self (PDict [(''status'', PStr ''unknown'')]) w
     = (Inl (RuntimeError ''Unexpected value of status''), w)
   \<and> SQLiteLoggingMixin_log self (PDict [(''status'', PStr ''unknown'')]) w
     = (Inl (ValueError ''Unexpected value of status''), w)"
  by (simp add: SimpleLoggingMixin_log_def SQLiteLoggingMixin_log_def dict_get_def)

text \<open>
  C10. The loggers validate \<^verbatim>\<open>status\<close> only. On a constructed logger, a result with
  status \<^verbatim>\<open>'ok'\<close> and no \<^verbatim>\<open>phone\<close> raises \<^verbatim>\<open>KeyError\<close> in both mixins; a result with
  status \<^verbatim>\<open>'error'\<close> raises \<^verbatim>\<open>KeyError\<close> for the first missing key among \<^verbatim>\<open>phone\<close>,
  \<^verbatim>\<open>error_msg\<close> in \<^verbatim>\<open>SimpleLoggingMixin\<close> and among \<^verbatim>\<open>phone\<close>, \<^verbatim>\<open>error_code\<close>,
  \<^verbatim>\<open>error_msg\<close> in \<^verbatim>\<open>SQLiteLoggingMixin\<close>. Nothing is logged or stored.
\<close>

theorem log_missing_key:
  assumes "logger self = Some lg" and "c_cursor self' = Some conn"
  shows
    "(map_of d ''status'' = Some (PStr ''ok'') \<and> map_of d ''phone'' = None \<longrightarrow>
        SimpleLoggingMixin_log self (PDict d) w = (Inl (KeyError ''phone''), w)
        \<and> SQLiteLoggingMixin_log self' (PDict d) w = (Inl (KeyError ''phone''), w))
     \<and> (map_of d ''status'' = Some (PStr ''error'')
          \<and> (map_of d ''phone'' = None \<or> map_of d ''error_msg'' = None) \<longrightarrow>
        SimpleLoggingMixin_log self (PDict d) w
          = (Inl (KeyError (if map_of d ''phone'' = None then ''phone'' else ''error_msg'')), w))
     \<and> (map_of d ''status'' = Some (PStr ''error'')
          \<and> (map_of d ''phone'' = None \<or> map_of d ''error_code'' = None
               \<or> map_of d ''error_msg'' = None) \<longrightarrow>
        SQLiteLoggingMixin_log self' (PDict d) w
          = (Inl (KeyError (if map_of d ''phone'' = None then ''phone''
                            else if map_of d ''error_code'' = None then ''error_code''
                            else ''error_msg'')), w))"
  using assms
  by (auto simp: SimpleLoggingMixin_log_def SQLiteLoggingMixin_log_def dict_get_def
        dict_item_def)

theorem log_missing_key_witness:
  "SimpleLoggingMixin_log (simple_handler SMSCRU_SMSHandlerMixin)
      (PDict [(''status'', PStr ''ok'')]) db_world = (Inl (KeyError ''phone''), db_world)
   \<and> SQLiteLoggingMixin_log (sqlite_handler SMSCRU_SMSHandlerMixin)
      (PDict [(''status'', PStr ''ok'')]) db_world = (Inl (KeyError ''phone''), db_world)
   \<and> SimpleLoggingMixin_log (simple_handler SMSCRU_SMSHandlerMixin)
      (PDict [(''status'', PStr ''error''), (''phone'', PStr ''79149009900'')]) db_world
        = (Inl (KeyError ''error_msg''), db_world)
   \<and> SQLiteLoggingMixin_log (sqlite_handler SMSCRU_SMSHandlerMixin)
      (PDict [(''status'', PStr ''error''), (''phone'', PStr ''79149009900'')]) db_world
        = (Inl (KeyError ''error_code''), db_world)"
  using
    log_missing_key [of "simple_handler SMSCRU_SMSHandlerMixin" "''sms''"
      "sqlite_handler SMSCRU_SMSHandlerMixin" default_db_uri
      "[(''status'', PStr ''ok'')]" db_world]
    log_missing_key [of "simple_handler SMSCRU_SMSHandlerMixin" "''sms''"
      "sqlite_handler SMSCRU_SMSHandlerMixin" default_db_uri
      "[(''status'', PStr ''error''), (''phone'', PStr ''79149009900'')]" db_world]
  by (simp add: simple_handler_def sqlite_handler_def)


section \<open>The store of SQLiteLoggingMixin\<close>



lemma insert_and_commit_no_table:
  assumes "stores w conn = Some s" and "\<not> table_exists s"
  shows "insert_and_commit conn r w = (Inl OperationalError, w)"
proof -
  have "(stores w)(conn \<mapsto> s) = stores w"
    using assms(1) by (simp add: fun_upd_idem_iff)
  with assms show ?thesis
    by (simp add: insert_and_commit_def execute_insert_def insert_row_def)
qed




lemma SQLite_log_leaves_nothing_pending:
  assumes "stores w conn = Some s" and "pending s = []"
    and "stores (snd (SQLiteLoggingMixin_log self result w)) conn = Some s1"
  shows "pending s1 = []"
  using assms
  by (auto simp: SQLiteLoggingMixin_log_def insert_and_commit_def execute_insert_def
        insert_row_def commit_def commit_store_def Let_def
        split: pyval.splits option.splits sum.splits if_splits prod.splits)


section \<open>Providers\<close>

lemma SMSCRU_send_request:
  assumes "login self = Some lgn" and "password self = Some psw"
  shows "SMSCRU_send ev log_fn self user_data w =
           (let r = gateway ev (SMSCRU_request lgn psw user_data);
                w1 = w\<lparr>events := events w @ [Request (SMSCRU_request lgn psw user_data)]\<rparr>
            in if status_code r \<noteq> 200 then log_fn (PDict (error_result ev user_data)) w1
               else case decoded r of None \<Rightarrow> (Inl JSONDecodeError, w1)
                    | Some response \<Rightarrow> log_fn response w1)"
  using assms by (simp add: SMSCRU_send_def SMSCRU_request_def http_def Let_def)

lemma SMSTRAFFIC_send_request:
  assumes "token self = Some tok"
  shows "SMSTRAFFIC_send ev log_fn self user_data w =
           (let r = gateway ev (SMSTRAFFIC_request tok user_data);
                w1 = w\<lparr>events := events w @ [Request (SMSTRAFFIC_request tok user_data)]\<rparr>
            in if status_code r \<noteq> 200 then log_fn (PDict (error_result ev user_data)) w1
               else case decoded r of None \<Rightarrow> (Inl JSONDecodeError, w1)
                    | Some response \<Rightarrow> log_fn response w1)"
  using assms by (simp add: SMSTRAFFIC_send_def SMSTRAFFIC_request_def http_def Let_def)

lemma events_SimpleLoggingMixin_log:
  "events (snd (SimpleLoggingMixin_log self result w)) = events w"
  by (auto simp: SimpleLoggingMixin_log_def logger_info_def Let_def
        split: pyval.splits option.splits sum.splits)

lemma events_insert_and_commit:
  "events (snd (insert_and_commit conn r w)) = events w"
  by (auto simp: insert_and_commit_def execute_insert_def commit_def
        split: option.splits sum.splits prod.splits)

lemma events_SQLiteLoggingMixin_log:
  "events (snd (SQLiteLoggingMixin_log self result w)) = events w"
  by (auto simp: SQLiteLoggingMixin_log_def events_insert_and_commit Let_def
        split: pyval.splits option.splits sum.splits)

lemma events_handler_log:
  "events (snd (handler_log self result w)) = events w"
  by (simp add: handler_log_def events_SimpleLoggingMixin_log events_SQLiteLoggingMixin_log
        split: logging.splits)

text \<open>
  C8. A response with status code 200 whose body decodes to a dictionary: \<^verbatim>\<open>send\<close> of
  \<^verbatim>\<open>SMSCRU_SMSHandlerMixin\<close>, and likewise \<^verbatim>\<open>send\<close> of \<^verbatim>\<open>SMSTRAFFIC_SMSHandlerMixin\<close>,
  issues its one request and calls \<^verbatim>\<open>_log\<close> once, with that dictionary as it was
  decoded; the result of \<^verbatim>\<open>send\<close> is the result of that call. Each provider is taken on
  its own: nothing is assumed of the exchange of the other.
\<close>

theorem send_logs_decoded_response:
  "(login self_a = Some lgn \<and> password self_a = Some psw
      \<and> status_code (gateway ev_a (SMSCRU_request lgn psw data_a)) = 200
      \<and> decoded (gateway ev_a (SMSCRU_request lgn psw data_a)) = Some (PDict response_a)
    \<longrightarrow> SMSCRU_send ev_a log_a self_a data_a w_a
          = log_a (PDict response_a)
              (w_a\<lparr>events := events w_a @ [Request (SMSCRU_request lgn psw data_a)]\<rparr>))
   \<and> (token self_b = Some tok
      \<and> status_code (gateway ev_b (SMSTRAFFIC_request tok data_b)) = 200
      \<and> decoded (gateway ev_b (SMSTRAFFIC_request tok data_b)) = Some (PDict response_b)
    \<longrightarrow> SMSTRAFFIC_send ev_b log_b self_b data_b w_b
          = log_b (PDict response_b)
              (w_b\<lparr>events := events w_b @ [Request (SMSTRAFFIC_request tok data_b)]\<rparr>))"
  by (simp add: SMSCRU_send_request SMSTRAFFIC_send_request)

theorem send_logs_decoded_response_witness:
  "SMSCRU_send smsc_only (SimpleLoggingMixin_log (simple_handler SMSCRU_SMSHandlerMixin))
      (simple_handler SMSCRU_SMSHandlerMixin) [(''phone'', PStr ''79149009900'')] empty_world
     = (Inr (),
        \<lparr>events = [Request (SMSCRU_request (PStr ''login'') (PStr ''pass'')
                              [(''phone'', PStr ''79149009900'')])],
         log_stream = [(''sms'', ''status: OK, phone: %s'', [PStr ''79149009900''])],
         stores = Map.empty\<rparr>)
   \<and> SMSTRAFFIC_send (mock_env 200 (Some (PDict failed_result)))
      (SQLiteLoggingMixin_log (sqlite_handler SMSTRAFFIC_SMSHandlerMixin))
      (sqlite_handler SMSTRAFFIC_SMSHandlerMixin) [(''phone'', PStr ''79149009900'')] db_world
     = SQLiteLoggingMixin_log (sqlite_handler SMSTRAFFIC_SMSHandlerMixin) (PDict failed_result)
         (db_world\<lparr>events := [Request (SMSTRAFFIC_request (PStr ''a'')
                                          [(''phone'', PStr ''79149009900'')])]\<rparr>)"
  using send_logs_decoded_response [where self_a = "simple_handler SMSCRU_SMSHandlerMixin"
      and lgn = "PStr ''login''" and psw = "PStr ''pass''" and ev_a = smsc_only
      and data_a = "[(''phone'', PStr ''79149009900'')]" and response_a = ok_result
      and w_a = empty_world
      and log_a = "SimpleLoggingMixin_log (simple_handler SMSCRU_SMSHandlerMixin)"
      and self_b = "sqlite_handler SMSTRAFFIC_SMSHandlerMixin" and tok = "PStr ''a''"
      and ev_b = "mock_env 200 (Some (PDict failed_result))"
      and data_b = "[(''phone'', PStr ''79149009900'')]" and response_b = failed_result
      and w_b = db_world
      and log_b = "SQLiteLoggingMixin_log (sqlite_handler SMSTRAFFIC_SMSHandlerMixin)"]
  by (simp add: simple_handler_def sqlite_handler_def mock_env_def smsc_only_def
        empty_world_def db_world_def ok_result_def SMSCRU_request_def
        SimpleLoggingMixin_log_def logger_info_def dict_get_def dict_item_def)

lemma insert_and_commit_returns:
  assumes "stores w conn = Some s" and "table_exists s"
    and "bind_row r = Inr sr" and "col_phone sr \<noteq> SqlNull"
    and "success r = 0 \<or> success r = 1"
  shows "fst (insert_and_commit conn r w) = Inr ()"
  using assms
  by (auto simp: insert_and_commit_def execute_insert_def insert_row_def commit_def Let_def)

lemma send_composed:
  assumes "handler_base self = SMSCRU_SMSHandlerMixin \<and> login self = Some lgn
             \<and> password self = Some psw \<and> rq = SMSCRU_request lgn psw user_data
           \<or> handler_base self = SMSTRAFFIC_SMSHandlerMixin \<and> token self = Some tok
             \<and> rq = SMSTRAFFIC_request tok user_data"
  shows "send ev self user_data w =
           (let r = gateway ev rq; w1 = w\<lparr>events := events w @ [Request rq]\<rparr>
            in if status_code r \<noteq> 200
               then handler_log self (PDict (error_result ev user_data)) w1
               else case decoded r of None \<Rightarrow> (Inl JSONDecodeError, w1)
                    | Some response \<Rightarrow> handler_log self response w1)"
  using assms
  by (auto simp: send_def SMSCRU_send_request SMSTRAFFIC_send_request)

text \<open>
  C4. A response whose status code is not 200: \<^verbatim>\<open>send\<close> of either provider mixin raises
  nothing of its own and does not look at the body. It issues its one request and calls
  \<^verbatim>\<open>_log\<close> once, with the dictionary \<^verbatim>\<open>{'status': 'error', 'phone': user_data.get('phone',
  '-'), 'error_code': None, 'error_msg': 'data: {}'.format(user_data)}\<close>, and the outcome of
  \<^verbatim>\<open>send\<close> is the outcome of that call. In a handler composed with
  \<^verbatim>\<open>SimpleLoggingMixin\<close> it returns; composed with \<^verbatim>\<open>SQLiteLoggingMixin\<close> it is the insert
  and commit of the row \<open>(0, phone, NULL, error_msg)\<close>, which returns when the table exists
  and the phone can be bound and is not null, and raises otherwise.
\<close>

theorem send_logs_transport_failure:
  assumes "ph = (case map_of user_data ''phone'' of None \<Rightarrow> PStr ''-'' | Some v \<Rightarrow> v)"
    and "msg = ''data: '' @ py_str ev user_data"
    and "result = PDict [(''status'', PStr ''error''), (''phone'', ph),
                         (''error_code'', PNone), (''error_msg'', PStr msg)]"
    and "ev' = ev\<lparr>gateway := \<lambda>q. (gateway ev q)\<lparr>decoded := body\<rparr>\<rparr>"
    and "rq_a = SMSCRU_request lgn psw user_data"
    and "rq_b = SMSTRAFFIC_request tok user_data"
  shows
    "(login self_a = Some lgn \<and> password self_a = Some psw
        \<and> status_code (gateway ev rq_a) \<noteq> 200 \<longrightarrow>
        SMSCRU_send ev log_fn self_a user_data w
          = log_fn result (w\<lparr>events := events w @ [Request rq_a]\<rparr>)
        \<and> SMSCRU_send ev' log_fn self_a user_data w = SMSCRU_send ev log_fn self_a user_data w)
     \<and> (token self_b = Some tok \<and> status_code (gateway ev rq_b) \<noteq> 200 \<longrightarrow>
        SMSTRAFFIC_send ev log_fn self_b user_data w
          = log_fn result (w\<lparr>events := events w @ [Request rq_b]\<rparr>)
        \<and> SMSTRAFFIC_send ev' log_fn self_b user_data w
          = SMSTRAFFIC_send ev log_fn self_b user_data w)
     \<and> ((handler_base self = SMSCRU_SMSHandlerMixin \<and> login self = Some lgn
            \<and> password self = Some psw \<and> rq = rq_a
          \<or> handler_base self = SMSTRAFFIC_SMSHandlerMixin \<and> token self = Some tok
            \<and> rq = rq_b)
         \<and> status_code (gateway ev rq) \<noteq> 200 \<longrightarrow>
        (logger_base self = SimpleLoggingMixin \<and> logger self = Some lg \<longrightarrow>
           send ev self user_data w
             = (Inr (),
                w\<lparr>events := events w @ [Request rq],
                  log_stream := log_stream w
                    @ [(lg, ''status: ERROR, phone: %s, message: %s'', [ph, PStr msg])]\<rparr>))
        \<and> (logger_base self = SQLiteLoggingMixin \<and> c_cursor self = Some conn \<longrightarrow>
           send ev self user_data w
             = insert_and_commit conn
                 \<lparr>success = 0, phone = ph, error_code = PNone, error_msg = PStr msg\<rparr>
                 (w\<lparr>events := events w @ [Request rq]\<rparr>))
        \<and> (logger_base self = SQLiteLoggingMixin \<and> c_cursor self = Some conn
            \<and> stores w conn = Some s \<and> table_exists s \<and> bind ph = Inr b \<and> b \<noteq> BNull \<longrightarrow>
           fst (send ev self user_data w) = Inr ()))"
proof -
  have res: "PDict (error_result ev user_data) = result"
    using assms(1-3) by (simp add: error_result_def dict_get_default_def)
  have a: "login self_a = Some lgn \<and> password self_a = Some psw
        \<and> status_code (gateway ev rq_a) \<noteq> 200 \<longrightarrow>
        SMSCRU_send ev log_fn self_a user_data w
          = log_fn result (w\<lparr>events := events w @ [Request rq_a]\<rparr>)
        \<and> SMSCRU_send ev' log_fn self_a user_data w = SMSCRU_send ev log_fn self_a user_data w"
    using assms(4,5) by (simp add: SMSCRU_send_request res [symmetric] error_result_def)
  have b: "token self_b = Some tok \<and> status_code (gateway ev rq_b) \<noteq> 200 \<longrightarrow>
        SMSTRAFFIC_send ev log_fn self_b user_data w
          = log_fn result (w\<lparr>events := events w @ [Request rq_b]\<rparr>)
        \<and> SMSTRAFFIC_send ev' log_fn self_b user_data w
          = SMSTRAFFIC_send ev log_fn self_b user_data w"
    using assms(4,6) by (simp add: SMSTRAFFIC_send_request res [symmetric] error_result_def)
  have c: "send ev self user_data w
             = (Inr (),
                w\<lparr>events := events w @ [Request rq],
                  log_stream := log_stream w
                    @ [(lg, ''status: ERROR, phone: %s, message: %s'', [ph, PStr msg])]\<rparr>)"
    if p: "handler_base self = SMSCRU_SMSHandlerMixin \<and> login self = Some lgn
            \<and> password self = Some psw \<and> rq = rq_a
          \<or> handler_base self = SMSTRAFFIC_SMSHandlerMixin \<and> token self = Some tok
            \<and> rq = rq_b"
      and st: "status_code (gateway ev rq) \<noteq> 200"
      and l: "logger_base self = SimpleLoggingMixin" "logger self = Some lg"
  proof -
    have "send ev self user_data w
            = handler_log self result (w\<lparr>events := events w @ [Request rq]\<rparr>)"
      using send_composed [of self lgn psw rq user_data tok ev w] p st assms(5,6)
      by (simp add: res Let_def)
    with l show ?thesis
      using assms(3)
      by (simp add: handler_log_def SimpleLoggingMixin_log_def logger_info_def dict_get_def
            dict_item_def)
  qed
  have d: "send ev self user_data w
             = insert_and_commit conn
                 \<lparr>success = 0, phone = ph, error_code = PNone, error_msg = PStr msg\<rparr>
                 (w\<lparr>events := events w @ [Request rq]\<rparr>)"
    if p: "handler_base self = SMSCRU_SMSHandlerMixin \<and> login self = Some lgn
            \<and> password self = Some psw \<and> rq = rq_a
          \<or> handler_base self = SMSTRAFFIC_SMSHandlerMixin \<and> token self = Some tok
            \<and> rq = rq_b"
      and st: "status_code (gateway ev rq) \<noteq> 200"
      and l: "logger_base self = SQLiteLoggingMixin" "c_cursor self = Some conn"
  proof -
    have "send ev self user_data w
            = handler_log self result (w\<lparr>events := events w @ [Request rq]\<rparr>)"
      using send_composed [of self lgn psw rq user_data tok ev w] p st assms(5,6)
      by (simp add: res Let_def)
    with l show ?thesis
      using assms(3)
      by (simp add: handler_log_def SQLiteLoggingMixin_log_def dict_get_def dict_item_def)
  qed
  have e: "fst (insert_and_commit conn
                 \<lparr>success = 0, phone = ph, error_code = PNone, error_msg = PStr msg\<rparr>
                 (w\<lparr>events := events w @ [Request rq]\<rparr>)) = Inr ()"
    if "stores w conn = Some s" "table_exists s" "bind ph = Inr b" "b \<noteq> BNull"
  proof (rule insert_and_commit_returns)
    show "stores (w\<lparr>events := events w @ [Request rq]\<rparr>) conn = Some s"
      using that by simp
    show "table_exists s" by fact
    show "bind_row \<lparr>success = 0, phone = ph, error_code = PNone, error_msg = PStr msg\<rparr>
            = Inr \<lparr>col_success = SqlReal 0, col_phone = text_affinity b,
                   col_error_code = SqlNull, col_error_msg = SqlText msg\<rparr>"
      using that by (simp add: bind_row_def text_affinity_def integer_affinity_def)
    show "col_phone \<lparr>col_success = SqlReal 0, col_phone = text_affinity b,
                   col_error_code = SqlNull, col_error_msg = SqlText msg\<rparr> \<noteq> SqlNull"
      using that by (cases b) (simp_all add: text_affinity_def)
    show "success \<lparr>success = 0, phone = ph, error_code = PNone, error_msg = PStr msg\<rparr> = 0
          \<or> success \<lparr>success = 0, phone = ph, error_code = PNone, error_msg = PStr msg\<rparr> = 1"
      by simp
  qed
  from a b c d e show ?thesis by (simp (no_asm_simp))
qed

theorem send_logs_transport_failure_witness:
  "send (mock_env 0 None) (simple_handler SMSCRU_SMSHandlerMixin) [] empty_world
     = (Inr (),
        \<lparr>events = [Request (SMSCRU_request (PStr ''login'') (PStr ''pass'') [])],
         log_stream = [(''sms'', ''status: ERROR, phone: %s, message: %s'',
                        [PStr ''-'', PStr ''data: {}''])],
         stores = Map.empty\<rparr>)
   \<and> SMSTRAFFIC_send (mock_env 0 None)
       (SQLiteLoggingMixin_log (sqlite_handler SMSTRAFFIC_SMSHandlerMixin))
       (sqlite_handler SMSTRAFFIC_SMSHandlerMixin) [(''phone'', PStr ''79149009900'')] db_world
     = (Inr (),
        \<lparr>events = [Request (SMSTRAFFIC_request (PStr ''a'')
                              [(''phone'', PStr ''79149009900'')])],
         log_stream = [],
         stores = [default_db_uri \<mapsto>
           empty_store\<lparr>committed :=
             [\<lparr>col_success = SqlReal 0, col_phone = SqlText ''79149009900'',
               col_error_code = SqlNull,
               col_error_msg = SqlText ''data: {'phone': '79149009900'}''\<rparr>]\<rparr>]\<rparr>)"
proof -
  have r1: "py_str (mock_env 0 None) [] = ''{}''"
    by (simp add: mock_env_def)
  have r2: "py_str (mock_env 0 None) [(''phone'', PStr ''79149009900'')]
              = ''{'phone': '79149009900'}''"
    by (simp add: mock_env_def repr_str_def repr_char_def Let_def)
  have st: "status_code (gateway (mock_env 0 None) q) \<noteq> 200" for q
    by (simp add: mock_env_def)
  note t1 = send_logs_transport_failure [where ev = "mock_env 0 None" and user_data = "[]"
      and self = "simple_handler SMSCRU_SMSHandlerMixin" and lgn = "PStr ''login''"
      and psw = "PStr ''pass''" and w = empty_world and lg = "''sms''"
      and rq = "SMSCRU_request (PStr ''login'') (PStr ''pass'') []",
      OF refl refl refl refl refl refl, THEN conjunct2, THEN conjunct2]
  note t2 = send_logs_transport_failure [where ev = "mock_env 0 None"
      and user_data = "[(''phone'', PStr ''79149009900'')]"
      and self_b = "sqlite_handler SMSTRAFFIC_SMSHandlerMixin" and tok = "PStr ''a''"
      and w = db_world
      and log_fn = "SQLiteLoggingMixin_log (sqlite_handler SMSTRAFFIC_SMSHandlerMixin)",
      OF refl refl refl refl refl refl, THEN conjunct2, THEN conjunct1]
  have "send (mock_env 0 None) (simple_handler SMSCRU_SMSHandlerMixin) [] empty_world
     = (Inr (),
        \<lparr>events = [Request (SMSCRU_request (PStr ''login'') (PStr ''pass'') [])],
         log_stream = [(''sms'', ''status: ERROR, phone: %s, message: %s'',
                        [PStr ''-'', PStr ''data: {}''])],
         stores = Map.empty\<rparr>)"
    using t1 by (simp add: st r1 simple_handler_def empty_world_def)
  moreover have "SMSTRAFFIC_send (mock_env 0 None)
       (SQLiteLoggingMixin_log (sqlite_handler SMSTRAFFIC_SMSHandlerMixin))
       (sqlite_handler SMSTRAFFIC_SMSHandlerMixin) [(''phone'', PStr ''79149009900'')] db_world
     = (Inr (),
        \<lparr>events = [Request (SMSTRAFFIC_request (PStr ''a'')
                              [(''phone'', PStr ''79149009900'')])],
         log_stream = [],
         stores = [default_db_uri \<mapsto>
           empty_store\<lparr>committed :=
             [\<lparr>col_success = SqlReal 0, col_phone = SqlText ''79149009900'',
               col_error_code = SqlNull,
               col_error_msg = SqlText ''data: {'phone': '79149009900'}''\<rparr>]\<rparr>]\<rparr>)"
    using t2
    by (simp add: st r2 sqlite_handler_def simple_handler_def db_world_def
        empty_store_def SQLiteLoggingMixin_log_def insert_and_commit_def execute_insert_def
        insert_row_def bind_row_def commit_def commit_store_def text_affinity_def
        integer_affinity_def dict_get_def dict_item_def Let_def)
  ultimately show ?thesis by simp
qed

text \<open>
  \<^verbatim>\<open>send\<close> raises after a response with status code 500: in a handler composed with
  \<^verbatim>\<open>SQLiteLoggingMixin\<close>, for a \<^verbatim>\<open>user_data\<close> whose phone is \<^verbatim>\<open>None\<close>, and for any
  \<^verbatim>\<open>user_data\<close> when the database file holds no table.
\<close>

theorem send_raises_store_error:
  "send (mock_env 500 None) (sqlite_handler SMSCRU_SMSHandlerMixin) [(''phone'', PNone)]
       db_world
     = (Inl IntegrityError,
        \<lparr>events = [Request (SMSCRU_request (PStr ''login'') (PStr ''pass'')
                              [(''phone'', PNone)])],
         log_stream = [],
         stores = [default_db_uri \<mapsto> empty_store\<lparr>in_transaction := True\<rparr>]\<rparr>)
   \<and> send (mock_env 500 None) (sqlite_handler SMSTRAFFIC_SMSHandlerMixin)
       [(''phone'', PStr ''79149009900'')] new_file_world
     = (Inl OperationalError,
        new_file_world\<lparr>events := [Request (SMSTRAFFIC_request (PStr ''a'')
                                           [(''phone'', PStr ''79149009900'')])]\<rparr>)"
  by (simp add: send_def SMSCRU_send_def SMSTRAFFIC_send_def http_def handler_log_def
        SQLiteLoggingMixin_log_def insert_and_commit_def execute_insert_def insert_row_def
        bind_row_def error_result_def dict_get_default_def dict_get_def dict_item_def
        sqlite_handler_def simple_handler_def mock_env_def db_world_def new_file_world_def
        new_file_def empty_store_def SMSCRU_request_def SMSTRAFFIC_request_def
        text_affinity_def integer_affinity_def Let_def)

lemma factory_handlers:
  "get_handler (mock_env 200 token_body) ''smsr.ru'' ''simple'' None db_world
     = (Inr (simple_handler SMSCRU_SMSHandlerMixin), db_world\<lparr>events := [GetLogger ''sms'']\<rparr>)"
  "fst (get_handler (mock_env 200 token_body) ''smstraffic.ru'' ''simple'' None db_world)
     = Inr (simple_handler SMSTRAFFIC_SMSHandlerMixin)"
  "get_handler (mock_env 200 token_body) ''smsr.ru'' ''sqlite'' None db_world
     = (Inr (sqlite_handler SMSCRU_SMSHandlerMixin), db_world\<lparr>events := [Connect default_db_uri]\<rparr>)"
  "fst (get_handler (mock_env 200 token_body) ''smstraffic.ru'' ''sqlite'' None db_world)
     = Inr (sqlite_handler SMSTRAFFIC_SMSHandlerMixin)"
  by (simp_all add: get_handler_def handlers_def loggers_def construct_def logger_init_def
        provider_init_def SimpleLoggingMixin_init_def SQLiteLoggingMixin_init_def
        SMSTRAFFIC_init_def get_token_def http_def connect_def BaseSMSHandler_init_def
        new_object_def simple_handler_def sqlite_handler_def provider_name_def db_world_def
        mock_env_def token_body_def dict_get_def dict_update_def Let_def)

text \<open>
  C1. The parameters that \<^verbatim>\<open>send\<close> passes to the gateway are the handler's own
  \<^verbatim>\<open>login\<close> and \<^verbatim>\<open>psw\<close> (\<^verbatim>\<open>SMSCRU_SMSHandlerMixin\<close>) or \<^verbatim>\<open>token\<close>
  (\<^verbatim>\<open>SMSTRAFFIC_SMSHandlerMixin\<close>) updated with \<^verbatim>\<open>user_data\<close>: a key of \<^verbatim>\<open>user_data\<close>,
  these three included, is sent with the value \<^verbatim>\<open>user_data\<close> gives it, and the handler's
  own value is sent for a key that \<^verbatim>\<open>user_data\<close> does not have.
\<close>

theorem send_parameters:
  assumes "wf_dict user_data"
    and "handler_base self_a = SMSCRU_SMSHandlerMixin"
    and "login self_a = Some lgn" and "password self_a = Some psw"
    and "handler_base self_b = SMSTRAFFIC_SMSHandlerMixin"
    and "token self_b = Some tok"
  shows "events (snd (send ev self_a user_data w))
           = events w @ [Request (SMSCRU_request lgn psw user_data)]
         \<and> map_of (payload (SMSCRU_request lgn psw user_data)) k
           = (case map_of user_data k of
                Some v \<Rightarrow> Some v
              | None \<Rightarrow> if k = ''login'' then Some lgn
                        else if k = ''psw'' then Some psw else None)
         \<and> events (snd (send ev self_b user_data w))
           = events w @ [Request (SMSTRAFFIC_request tok user_data)]
         \<and> map_of (payload (SMSTRAFFIC_request tok user_data)) k
           = (case map_of user_data k of
                Some v \<Rightarrow> Some v
              | None \<Rightarrow> if k = ''token'' then Some tok else None)"
proof -
  have "events (snd (send ev self_a user_data w))
          = events w @ [Request (SMSCRU_request lgn psw user_data)]"
    using assms(2-4)
    by (simp add: send_def SMSCRU_send_request Let_def events_handler_log split: option.splits)
  moreover have "events (snd (send ev self_b user_data w))
          = events w @ [Request (SMSTRAFFIC_request tok user_data)]"
    using assms(5,6)
    by (simp add: send_def SMSTRAFFIC_send_request Let_def events_handler_log
          split: option.splits)
  moreover have "map_of (payload (SMSCRU_request lgn psw user_data)) k
           = (case map_of user_data k of
                Some v \<Rightarrow> Some v
              | None \<Rightarrow> if k = ''login'' then Some lgn
                        else if k = ''psw'' then Some psw else None)"
    using assms(1) by (simp add: SMSCRU_request_def lookup_dict_update split: option.splits)
  moreover have "map_of (payload (SMSTRAFFIC_request tok user_data)) k
           = (case map_of user_data k of
                Some v \<Rightarrow> Some v
              | None \<Rightarrow> if k = ''token'' then Some tok else None)"
    using assms(1) by (simp add: SMSTRAFFIC_request_def lookup_dict_update split: option.splits)
  ultimately show ?thesis by simp
qed

theorem send_parameters_witness:
  "events (snd (send (mock_env 200 (Some (PDict ok_result)))
                  (simple_handler SMSCRU_SMSHandlerMixin)
                  [(''phone'', PStr ''79149009900'')] empty_world))
     = [Request (SMSCRU_request (PStr ''login'') (PStr ''pass'')
                   [(''phone'', PStr ''79149009900'')])]
   \<and> map_of (payload (SMSCRU_request (PStr ''login'') (PStr ''pass'')
                   [(''phone'', PStr ''79149009900'')])) ''login'' = Some (PStr ''login'')
   \<and> events (snd (send (mock_env 200 (Some (PDict ok_result)))
                  (simple_handler SMSTRAFFIC_SMSHandlerMixin)
                  [(''phone'', PStr ''79149009900'')] empty_world))
     = [Request (SMSTRAFFIC_request (PStr ''a'') [(''phone'', PStr ''79149009900'')])]
   \<and> map_of (payload (SMSTRAFFIC_request (PStr ''a'')
                   [(''phone'', PStr ''79149009900'')])) ''token'' = Some (PStr ''a'')"
  using send_parameters [where self_a = "simple_handler SMSCRU_SMSHandlerMixin"
      and lgn = "PStr ''login''" and psw = "PStr ''pass''"
      and self_b = "simple_handler SMSTRAFFIC_SMSHandlerMixin" and tok = "PStr ''a''"
      and ev = "mock_env 200 (Some (PDict ok_result))"
      and user_data = "[(''phone'', PStr ''79149009900'')]" and w = empty_world
      and k = "''login''"]
    send_parameters [where self_a = "simple_handler SMSCRU_SMSHandlerMixin"
      and lgn = "PStr ''login''" and psw = "PStr ''pass''"
      and self_b = "simple_handler SMSTRAFFIC_SMSHandlerMixin" and tok = "PStr ''a''"
      and ev = "mock_env 200 (Some (PDict ok_result))"
      and user_data = "[(''phone'', PStr ''79149009900'')]" and w = empty_world
      and k = "''token''"]
  by (simp add: simple_handler_def wf_dict_def empty_world_def)

theorem user_data_overrides_credentials:
  "events (snd (send (mock_env 200 (Some (PDict ok_result)))
                  (simple_handler SMSCRU_SMSHandlerMixin)
                  [(''login'', PStr ''mallory''), (''psw'', PStr ''guess'')] empty_world))
     = [Request \<lparr>http_method = GET, url = ''http://smsc.ru/someapi/message/'',
                 payload = [(''login'', PStr ''mallory''), (''psw'', PStr ''guess'')]\<rparr>]
   \<and> login (simple_handler SMSCRU_SMSHandlerMixin) = Some (PStr ''login'')
   \<and> password (simple_handler SMSCRU_SMSHandlerMixin) = Some (PStr ''pass'')
   \<and> events (snd (send (mock_env 200 (Some (PDict ok_result)))
                  (simple_handler SMSTRAFFIC_SMSHandlerMixin)
                  [(''token'', PStr ''forged'')] empty_world))
     = [Request \<lparr>http_method = POST, url = ''http://smstraffic.ru/superapi/message/'',
                 payload = [(''token'', PStr ''forged'')]\<rparr>]
   \<and> token (simple_handler SMSTRAFFIC_SMSHandlerMixin) = Some (PStr ''a'')"
  by (simp add: send_def SMSCRU_send_def SMSTRAFFIC_send_def handler_log_def
        SimpleLoggingMixin_log_def logger_info_def http_def simple_handler_def mock_env_def
        ok_result_def empty_world_def dict_update_def dict_get_def dict_item_def
        SMSCRU_request_url_def SMSTRAFFIC_request_url_def Let_def)


section \<open>Construction of SMSTRAFFIC handlers\<close>

lemma get_token_request:
  assumes "login self = Some lgn" and "password self = Some psw"
  shows "get_token ev self w =
           (let r = gateway ev (auth_request lgn psw);
                w1 = w\<lparr>events := events w @ [Request (auth_request lgn psw)]\<rparr>
            in if status_code r \<noteq> 200
               then (Inl (RuntimeError (''Invalid response status code: ''
                             @ str_int (status_code r) @ '' != 200'')), w1)
               else case decoded r of
                      None \<Rightarrow> (Inl JSONDecodeError, w1)
                    | Some (PDict d) \<Rightarrow>
                        if dict_get d ''token'' = PNone
                        then (Inl (RuntimeError
                                ''Response from server does not contain token''), w1)
                        else (Inr (dict_get d ''token''), w1)
                    | Some _ \<Rightarrow> (Inl (AttributeError ''get''), w1))"
  using assms
  by (auto simp: get_token_def auth_request_def http_def Let_def
        split: option.splits pyval.splits)

text \<open>
  C6. The constructor of \<^verbatim>\<open>SMSTRAFFIC_SMSHandlerMixin\<close>, once the next constructor has
  set \<^verbatim>\<open>login\<close> and \<^verbatim>\<open>password\<close>, posts them to the auth URL, once. A status code
  other than 200 raises \<^verbatim>\<open>RuntimeError\<close>; so does a body that decodes to a dictionary
  where \<^verbatim>\<open>.get('token')\<close> is \<^verbatim>\<open>None\<close> (no key \<^verbatim>\<open>token\<close>, or a null one); no object
  is returned then. Otherwise the token of the dictionary is stored in \<^verbatim>\<open>self.token\<close>.
\<close>

theorem SMSTRAFFIC_init_token:
  assumes "super_init kwargs self w = (Inr self1, w1)"
    and "login self1 = Some lgn" and "password self1 = Some psw"
    and "r = gateway ev (auth_request lgn psw)"
    and "w2 = w1\<lparr>events := events w1 @ [Request (auth_request lgn psw)]\<rparr>"
  shows "(status_code r \<noteq> 200 \<longrightarrow>
            SMSTRAFFIC_init ev super_init kwargs self w
              = (Inl (RuntimeError (''Invalid response status code: ''
                                      @ str_int (status_code r) @ '' != 200'')), w2))
         \<and> (status_code r = 200 \<and> decoded r = Some (PDict d)
              \<and> (map_of d ''token'' = None \<or> map_of d ''token'' = Some PNone) \<longrightarrow>
            SMSTRAFFIC_init ev super_init kwargs self w
              = (Inl (RuntimeError ''Response from server does not contain token''), w2))
         \<and> (status_code r = 200 \<and> decoded r = Some (PDict d)
              \<and> map_of d ''token'' = Some tok \<and> tok \<noteq> PNone \<longrightarrow>
            SMSTRAFFIC_init ev super_init kwargs self w
              = (Inr (self1\<lparr>token := Some tok\<rparr>), w2))"
  using assms
  by (auto simp: SMSTRAFFIC_init_def get_token_request dict_get_def Let_def
        split: option.splits)

lemma str_int_0: "str_int 0 = ''0''"
  by (simp add: str_int_def str_nat.simps digit_char_def)

theorem SMSTRAFFIC_init_token_witness:
  "get_handler (mock_env 0 token_body) ''smstraffic.ru'' ''simple'' None empty_world
     = (Inl (RuntimeError ''Invalid response status code: 0 != 200''),
        empty_world\<lparr>events := [Request (auth_request (PStr ''login'') (PStr ''pass''))]\<rparr>)
   \<and> get_handler (mock_env 200 (Some (PDict []))) ''smstraffic.ru'' ''simple'' None empty_world
     = (Inl (RuntimeError ''Response from server does not contain token''),
        empty_world\<lparr>events := [Request (auth_request (PStr ''login'') (PStr ''pass''))]\<rparr>)
   \<and> get_handler (mock_env 200 token_body) ''smstraffic.ru'' ''simple'' None empty_world
     = (Inr (simple_handler SMSTRAFFIC_SMSHandlerMixin),
        empty_world\<lparr>events := [Request (auth_request (PStr ''login'') (PStr ''pass'')),
                                 GetLogger ''sms'']\<rparr>)"
proof -
  let ?kw = "[(''login'', PStr ''login''), (''password'', PStr ''pass'')]"
  let ?self = "new_object ''SMSTRAFFIC_SMSHandler'' SimpleLoggingMixin SMSTRAFFIC_SMSHandlerMixin"
  let ?self1 = "?self\<lparr>login := Some (PStr ''login''), password := Some (PStr ''pass''),
                        sender := Some PNone\<rparr>"
  have base: "BaseSMSHandler_init ?kw ?self empty_world = (Inr ?self1, empty_world)"
    by (simp add: BaseSMSHandler_init_def dict_get_def)
  have l: "login ?self1 = Some (PStr ''login'')" and p: "password ?self1 = Some (PStr ''pass'')"
    by simp_all
  note t = SMSTRAFFIC_init_token [where super_init = BaseSMSHandler_init and kwargs = ?kw
      and self = ?self and w = empty_world, OF base l p refl refl]
  have get: "get_handler ev ''smstraffic.ru'' ''simple'' None empty_world
               = SimpleLoggingMixin_init (SMSTRAFFIC_init ev BaseSMSHandler_init) ?kw ?self
                   empty_world" for ev
    by (simp add: get_handler_def handlers_def loggers_def construct_def logger_init_def
          provider_init_def provider_name_def dict_update_def)
  have f1: "SMSTRAFFIC_init (mock_env 0 token_body) BaseSMSHandler_init ?kw ?self empty_world
      = (Inl (RuntimeError ''Invalid response status code: 0 != 200''),
         empty_world\<lparr>events := [Request (auth_request (PStr ''login'') (PStr ''pass''))]\<rparr>)"
    using t [of "mock_env 0 token_body" "[]" PNone]
    by (simp add: mock_env_def str_int_0 empty_world_def)
  have f2: "SMSTRAFFIC_init (mock_env 200 (Some (PDict []))) BaseSMSHandler_init ?kw ?self
        empty_world
      = (Inl (RuntimeError ''Response from server does not contain token''),
         empty_world\<lparr>events := [Request (auth_request (PStr ''login'') (PStr ''pass''))]\<rparr>)"
    using t [of "mock_env 200 (Some (PDict []))" "[]" PNone]
    by (simp add: mock_env_def empty_world_def)
  have f3: "SMSTRAFFIC_init (mock_env 200 token_body) BaseSMSHandler_init ?kw ?self empty_world
      = (Inr (?self1\<lparr>token := Some (PStr ''a'')\<rparr>),
         empty_world\<lparr>events := [Request (auth_request (PStr ''login'') (PStr ''pass''))]\<rparr>)"
    using t [of "mock_env 200 token_body" "[(''token'', PStr ''a'')]" "PStr ''a''"]
    by (simp add: mock_env_def token_body_def empty_world_def)
  show ?thesis
    by (simp add: get f1 f2 f3 SimpleLoggingMixin_init_def)
      (simp add: simple_handler_def new_object_def provider_name_def empty_world_def)
qed


section \<open>get\_handler\<close>

text \<open>
  C9. A \<^verbatim>\<open>handler_name\<close> that is not a key of the registry \<^verbatim>\<open>handlers\<close>, or a
  \<^verbatim>\<open>logger_name\<close> that is not a key of the registry \<^verbatim>\<open>loggers\<close>: \<^verbatim>\<open>get_handler\<close> raises
  \<^verbatim>\<open>ValueError\<close>, returns no handler, and leaves the world as it was (no request to a
  gateway, no connection to a store, no logger obtained).
\<close>

theorem get_handler_invalid_name:
  assumes "handler_name \<notin> set (map fst handlers) \<or> logger_name \<notin> set (map fst loggers)"
  shows "get_handler ev handler_name logger_name handler_data w
           = (Inl (ValueError ''Invalid handler_name or logger_name''), w)"
proof (cases "map_of handlers handler_name")
  case None
  then show ?thesis by (simp add: get_handler_def)
next
  case (Some entry)
  then have "handler_name \<in> set (map fst handlers)"
    by (metis map_of_eq_None_iff option.distinct(1) set_map)
  with assms have "logger_name \<notin> set (map fst loggers)" by blast
  then have "map_of loggers logger_name = None"
    by (simp add: map_of_eq_None_iff)
  with Some show ?thesis
    by (simp add: get_handler_def split: prod.splits)
qed

theorem get_handler_invalid_name_witness:
  "''a'' \<notin> set (map fst handlers) \<and> ''b'' \<notin> set (map fst loggers)
   \<and> get_handler (mock_env 200 token_body) ''a'' ''simple'' None db_world
       = (Inl (ValueError ''Invalid handler_name or logger_name''), db_world)
   \<and> get_handler (mock_env 200 token_body) ''smsr.ru'' ''b'' None db_world
       = (Inl (ValueError ''Invalid handler_name or logger_name''), db_world)"
  using get_handler_invalid_name [of "''a''" "''simple''" "mock_env 200 token_body" None db_world]
        get_handler_invalid_name [of "''smsr.ru''" "''b''" "mock_env 200 token_body" None db_world]
  by (simp add: handlers_def loggers_def)

lemma BaseSMSHandler_init_attrs:
  assumes "BaseSMSHandler_init kwargs self w = (Inr h1, w1)"
  shows "logger h1 = logger self \<and> c_cursor h1 = c_cursor self \<and> w1 = w"
  using assms by (auto simp: BaseSMSHandler_init_def split: if_splits)

lemma get_token_events:
  assumes "get_token ev self w = (res, w1)"
  shows "\<exists>rqs. events w1 = events w @ map Request rqs"
proof (cases "login self")
  case None
  with assms show ?thesis by (simp add: get_token_def)
next
  case l: (Some lgn)
  show ?thesis
  proof (cases "password self")
    case None
    with assms l show ?thesis by (simp add: get_token_def)
  next
    case (Some psw)
    with assms l have "events w1 = events w @ map Request [auth_request lgn psw]"
      by (auto simp: get_token_request Let_def split: if_splits option.splits pyval.splits)
    then show ?thesis by blast
  qed
qed

lemma provider_init_attrs:
  assumes "provider_init ev p kwargs self w = (Inr h1, w1)"
  shows "logger h1 = logger self \<and> c_cursor h1 = c_cursor self
         \<and> (\<exists>rqs. events w1 = events w @ map Request rqs)"
proof (cases p)
  case SMSCRU_SMSHandlerMixin
  with assms have "BaseSMSHandler_init kwargs self w = (Inr h1, w1)"
    by (simp add: provider_init_def)
  from BaseSMSHandler_init_attrs [OF this] have "logger h1 = logger self"
    and "c_cursor h1 = c_cursor self" and "events w1 = events w @ map Request []"
    by simp_all
  then show ?thesis by blast
next
  case SMSTRAFFIC_SMSHandlerMixin
  with assms have t: "SMSTRAFFIC_init ev BaseSMSHandler_init kwargs self w = (Inr h1, w1)"
    by (simp add: provider_init_def)
  then obtain h0 where b: "BaseSMSHandler_init kwargs self w = (Inr h0, w)"
    by (auto simp: SMSTRAFFIC_init_def split: prod.splits sum.splits
          dest: BaseSMSHandler_init_attrs)
  with t obtain tok where g: "get_token ev h0 w = (Inr tok, w1)"
    and h1: "h1 = h0\<lparr>token := Some tok\<rparr>"
    by (auto simp: SMSTRAFFIC_init_def split: prod.splits sum.splits)
  from BaseSMSHandler_init_attrs [OF b] h1 get_token_events [OF g]
  show ?thesis by simp
qed

text \<open>
  C3. In the composed class the logger mixin's constructor is entered first, and it calls
  the next constructor before doing anything else. So whenever construction succeeds, the
  provider part's constructor (with the auth request of \<^verbatim>\<open>SMSTRAFFIC_SMSHandlerMixin\<close>)
  has run to its end on an object that has neither \<^verbatim>\<open>self.logger\<close> nor \<^verbatim>\<open>self.c\<close>, and
  the logger or the store connection is obtained after it, as the last event of the
  construction.
\<close>

theorem construct_order:
  assumes "construct ev name l p kwargs w = (Inr h, w2)"
  shows "\<exists>kw h1 w1 rqs e.
           provider_init ev p kw (new_object name l p) w = (Inr h1, w1)
           \<and> logger h1 = None \<and> c_cursor h1 = None
           \<and> events w1 = events w @ map Request rqs
           \<and> events w2 = events w1 @ [e]
           \<and> (case l of
                 SimpleLoggingMixin \<Rightarrow> e = GetLogger ''sms'' \<and> h = h1\<lparr>logger := Some ''sms''\<rparr>
               | SQLiteLoggingMixin \<Rightarrow>
                   (\<exists>uri. e = Connect uri \<and> h = h1\<lparr>c_cursor := Some uri\<rparr>))"
proof (cases l)
  case SimpleLoggingMixin
  with assms obtain h1 w1 where
    p: "provider_init ev p kwargs (new_object name l p) w = (Inr h1, w1)"
    and h: "h = h1\<lparr>logger := Some ''sms''\<rparr>"
    and w2: "w2 = w1\<lparr>events := events w1 @ [GetLogger ''sms'']\<rparr>"
    by (auto simp: construct_def logger_init_def SimpleLoggingMixin_init_def
          split: prod.splits sum.splits)
  from provider_init_attrs [OF p] obtain rqs where
    "logger h1 = None" and "c_cursor h1 = None" and "events w1 = events w @ map Request rqs"
    by (auto simp: new_object_def)
  with p h w2 SimpleLoggingMixin show ?thesis
    by (intro exI [of _ kwargs] exI [of _ h1] exI [of _ w1] exI [of _ rqs]
          exI [of _ "GetLogger ''sms''"]) simp
next
  case SQLiteLoggingMixin
  with assms obtain h1 w1 uri where
    p: "provider_init ev p (AList.delete ''db_uri'' kwargs) (new_object name l p) w
          = (Inr h1, w1)"
    and h: "h = h1\<lparr>c_cursor := Some uri\<rparr>"
    and w2: "w2 = w1\<lparr>events := events w1 @ [Connect uri]\<rparr>"
    by (auto simp: construct_def logger_init_def SQLiteLoggingMixin_init_def connect_def
          Let_def split: prod.splits sum.splits option.splits pyval.splits)
  from provider_init_attrs [OF p] obtain rqs where
    "logger h1 = None" and "c_cursor h1 = None" and "events w1 = events w @ map Request rqs"
    by (auto simp: new_object_def)
  with p h w2 SQLiteLoggingMixin show ?thesis
    by (intro exI [of _ "AList.delete ''db_uri'' kwargs"] exI [of _ h1] exI [of _ w1]
          exI [of _ rqs] exI [of _ "Connect uri"]) auto
qed

lemma construct_sqlite_smstraffic:
  "construct (mock_env 200 token_body) ''SMSTRAFFIC_SMSHandler'' SQLiteLoggingMixin
      SMSTRAFFIC_SMSHandlerMixin
      [(''login'', PStr ''login''), (''password'', PStr ''pass''),
       (''db_uri'', PStr default_db_uri)] db_world
     = (Inr (sqlite_handler SMSTRAFFIC_SMSHandlerMixin),
        db_world\<lparr>events := [Request (auth_request (PStr ''login'') (PStr ''pass'')),
                              Connect default_db_uri]\<rparr>)"
  by (simp add: construct_def logger_init_def provider_init_def SQLiteLoggingMixin_init_def
        SMSTRAFFIC_init_def get_token_def http_def connect_def BaseSMSHandler_init_def
        new_object_def simple_handler_def sqlite_handler_def provider_name_def db_world_def
        mock_env_def token_body_def dict_get_def auth_request_def Let_def)

theorem construct_order_witness:
  "\<exists>kw h1 w1 rqs e.
     provider_init (mock_env 200 token_body) SMSTRAFFIC_SMSHandlerMixin kw
         (new_object ''SMSTRAFFIC_SMSHandler'' SQLiteLoggingMixin SMSTRAFFIC_SMSHandlerMixin)
         db_world = (Inr h1, w1)
     \<and> logger h1 = None \<and> c_cursor h1 = None
     \<and> events w1 = map Request rqs
     \<and> [Request (auth_request (PStr ''login'') (PStr ''pass'')), Connect default_db_uri]
         = events w1 @ [e]
     \<and> (\<exists>uri. e = Connect uri
           \<and> sqlite_handler SMSTRAFFIC_SMSHandlerMixin = h1\<lparr>c_cursor := Some uri\<rparr>)"
  using construct_order [OF construct_sqlite_smstraffic]
  by (simp add: db_world_def)

text \<open>
  The auth request of \<^verbatim>\<open>SMSTRAFFIC_SMSHandlerMixin.__init__\<close> is issued before the logger
  mixin obtains its logger or opens its connection, and \<^verbatim>\<open>_log\<close> on the object that the
  provider's constructor leaves raises \<^verbatim>\<open>AttributeError\<close>.
\<close>

theorem provider_constructed_before_logger:
  "events (snd (get_handler (mock_env 200 token_body) ''smstraffic.ru'' ''simple'' None
                  db_world))
     = [Request (auth_request (PStr ''login'') (PStr ''pass'')), GetLogger ''sms'']
   \<and> events (snd (get_handler (mock_env 200 token_body) ''smstraffic.ru'' ''sqlite'' None
                  db_world))
     = [Request (auth_request (PStr ''login'') (PStr ''pass'')), Connect default_db_uri]
   \<and> (case provider_init (mock_env 200 token_body) SMSTRAFFIC_SMSHandlerMixin
             [(''login'', PStr ''login''), (''password'', PStr ''pass'')]
             (new_object ''SMSTRAFFIC_SMSHandler'' SimpleLoggingMixin
                SMSTRAFFIC_SMSHandlerMixin) db_world of
         (Inl e, w1) \<Rightarrow> Inl e
       | (Inr h1, w1) \<Rightarrow> fst (handler_log h1 (PDict ok_result) w1))
     = Inl (AttributeError ''logger'')"
  by (simp add: get_handler_def handlers_def loggers_def construct_def logger_init_def
        provider_init_def SimpleLoggingMixin_init_def SQLiteLoggingMixin_init_def
        SMSTRAFFIC_init_def get_token_def http_def connect_def BaseSMSHandler_init_def
        new_object_def provider_name_def db_world_def mock_env_def token_body_def
        dict_get_def dict_update_def auth_request_def handler_log_def
        SimpleLoggingMixin_log_def ok_result_def Let_def)

text \<open>
  C5. With \<^verbatim>\<open>logger_name = 'sqlite'\<close> the default location is injected when
  \<^verbatim>\<open>handler_data\<close> is \<^verbatim>\<open>None\<close>, and then a handler connected to it is returned, provided
  the location can be opened and the provider's own construction succeeds (the auth
  exchange of \<^verbatim>\<open>smstraffic.ru\<close>). When a dictionary is passed as \<^verbatim>\<open>handler_data\<close>, empty or
  not, nothing is injected: without a key \<^verbatim>\<open>db_uri\<close> in it \<^verbatim>\<open>get_handler\<close> raises
  \<^verbatim>\<open>TypeError\<close>, returns no handler and does nothing else, whatever the world and the
  gateway are.
\<close>

theorem get_handler_default_db_uri:
  "(stores w default_db_uri = Some s \<longrightarrow>
      get_handler ev ''smsr.ru'' ''sqlite'' None w
        = (Inr (sqlite_handler SMSCRU_SMSHandlerMixin),
           w\<lparr>events := events w @ [Connect default_db_uri]\<rparr>))
   \<and> (stores w default_db_uri = Some s
       \<and> status_code (gateway ev (auth_request (PStr ''login'') (PStr ''pass''))) = 200
       \<and> decoded (gateway ev (auth_request (PStr ''login'') (PStr ''pass''))) = Some (PDict d)
       \<and> map_of d ''token'' = Some tok \<and> tok \<noteq> PNone \<longrightarrow>
      get_handler ev ''smstraffic.ru'' ''sqlite'' None w
        = (Inr ((sqlite_handler SMSTRAFFIC_SMSHandlerMixin)\<lparr>token := Some tok\<rparr>),
           w\<lparr>events := events w @ [Request (auth_request (PStr ''login'') (PStr ''pass'')),
                                    Connect default_db_uri]\<rparr>))
   \<and> (map_of handlers handler_name = Some entry \<and> map_of overrides ''db_uri'' = None \<longrightarrow>
      get_handler ev handler_name ''sqlite'' (Some overrides) w = (Inl TypeError, w))"
proof -
  have a: "get_handler ev ''smsr.ru'' ''sqlite'' None w
           = (Inr (sqlite_handler SMSCRU_SMSHandlerMixin),
              w\<lparr>events := events w @ [Connect default_db_uri]\<rparr>)"
    if "stores w default_db_uri = Some s"
    using that
    by (simp add: get_handler_def handlers_def loggers_def construct_def logger_init_def
          provider_init_def SQLiteLoggingMixin_init_def connect_def BaseSMSHandler_init_def
          new_object_def simple_handler_def sqlite_handler_def provider_name_def
          dict_get_def dict_update_def Let_def)
  have b: "get_handler ev ''smstraffic.ru'' ''sqlite'' None w
           = (Inr ((sqlite_handler SMSTRAFFIC_SMSHandlerMixin)\<lparr>token := Some tok\<rparr>),
              w\<lparr>events := events w @ [Request (auth_request (PStr ''login'') (PStr ''pass'')),
                                       Connect default_db_uri]\<rparr>)"
    if "stores w default_db_uri = Some s"
      and "status_code (gateway ev (auth_request (PStr ''login'') (PStr ''pass''))) = 200"
      and "decoded (gateway ev (auth_request (PStr ''login'') (PStr ''pass'')))
             = Some (PDict d)"
      and "map_of d ''token'' = Some tok" and "tok \<noteq> PNone"
    using that
    by (simp add: get_handler_def handlers_def loggers_def construct_def logger_init_def
          provider_init_def SQLiteLoggingMixin_init_def connect_def BaseSMSHandler_init_def
          SMSTRAFFIC_init_def get_token_request
          new_object_def simple_handler_def sqlite_handler_def provider_name_def
          dict_get_def dict_update_def Let_def)
  have c: "get_handler ev handler_name ''sqlite'' (Some overrides) w = (Inl TypeError, w)"
    if h: "map_of handlers handler_name = Some entry"
      and o: "map_of overrides ''db_uri'' = None"
  proof -
    obtain p auth_data where e: "entry = (p, auth_data)"
      by (cases entry)
    have "map_of auth_data ''db_uri'' = None"
      using h e by (auto simp: handlers_def split: if_splits)
    then have "map_of (rev auth_data) ''db_uri'' = None"
      by (simp add: map_of_rev_eq_None)
    moreover have "map_of (rev overrides) ''db_uri'' = None"
      using o by (simp add: map_of_rev_eq_None)
    ultimately
    have "map_of (dict_update (dict_update [] auth_data) overrides) ''db_uri'' = None"
      by (simp add: map_of_dict_update map_add_def)
    then show ?thesis
      using h e
      by (simp add: get_handler_def loggers_def construct_def logger_init_def
            SQLiteLoggingMixin_init_def Let_def)
  qed
  from a b c show ?thesis by blast
qed

theorem get_handler_default_db_uri_witness:
  "get_handler (mock_env 503 None) ''smsr.ru'' ''sqlite'' None db_world
     = (Inr (sqlite_handler SMSCRU_SMSHandlerMixin),
        db_world\<lparr>events := [Connect default_db_uri]\<rparr>)
   \<and> get_handler (mock_env 200 token_body) ''smstraffic.ru'' ''sqlite'' None db_world
     = (Inr (sqlite_handler SMSTRAFFIC_SMSHandlerMixin),
        db_world\<lparr>events := [Request (auth_request (PStr ''login'') (PStr ''pass'')),
                              Connect default_db_uri]\<rparr>)
   \<and> get_handler (mock_env 503 None) ''smstraffic.ru'' ''sqlite'' (Some []) empty_world
     = (Inl TypeError, empty_world)"
  using get_handler_default_db_uri [where w = db_world and s = empty_store
      and ev = "mock_env 503 None"]
    get_handler_default_db_uri [where w = db_world and s = empty_store
      and ev = "mock_env 200 token_body" and d = "[(''token'', PStr ''a'')]"
      and tok = "PStr ''a''"]
    get_handler_default_db_uri [where w = empty_world and ev = "mock_env 503 None"
      and handler_name = "''smstraffic.ru''" and overrides = "[]"
      and entry = "(SMSTRAFFIC_SMSHandlerMixin,
                    [(''login'', PStr ''login''), (''password'', PStr ''pass'')])"]
  by (simp add: db_world_def mock_env_def token_body_def handlers_def sqlite_handler_def
        simple_handler_def)

theorem overrides_without_db_uri:
  "stores db_world default_db_uri = Some empty_store
   \<and> get_handler (mock_env 200 token_body) ''smsr.ru'' ''sqlite''
       (Some [(''sender'', PStr ''79140000000'')]) db_world
     = (Inl TypeError, db_world)"
  by (simp add: get_handler_def handlers_def loggers_def construct_def logger_init_def
        SQLiteLoggingMixin_init_def provider_name_def db_world_def dict_update_def Let_def)

end
